theory Spec2Isabelle
  imports Complex_Main
begin

section \<open>Tensors, errors and the external collaborators\<close>

text \<open>
  The program is \<^verbatim>\<open>fully_connected_networks.py\<close>: layer primitives with a forward
  and a backward pass, a softmax loss, two network classes and four update rules, all
  written on PyTorch tensors.

  The entries of a tensor are finite floating-point numbers and are modelled as
  \<^typ>\<open>real\<close>: the development follows the exact arithmetic of the formulas in the
  source and leaves the rounding of a result to the nearest float out. The sums and
  products of the layers and of the update rules are taken as exact. The softmax is
  different: it exponentiates, and an exponential leaves the range of the floating-point
  type for scores of moderate size, so there the model keeps the range of the type and
  the values \<^verbatim>\<open>inf\<close> and \<^verbatim>\<open>nan\<close>, as the section on the floating-point range
  describes.
  A tensor of shape \<open>(M,)\<close> is the list of its entries, a tensor of
  shape \<open>(N, M)\<close> the list of its \<open>N\<close> rows. The input \<open>x\<close> of a linear layer is taken in
  its flattened form \<open>(N, D)\<close>, on which \<^verbatim>\<open>x.reshape(N, D)\<close> and
  \<^verbatim>\<open>dx.reshape(x.size())\<close> leave the rows as they are. A list of rows does not
  record the column count of a tensor without rows, so the model is meant for tensors
  whose dimensions are all positive.
\<close>

type_synonym vec = "real list"

type_synonym mat = "real list list"

datatype tensor = Vec vec | Mat mat

text \<open>
  The exceptions the source can raise. PyTorch reports a shape mismatch as
  \<^verbatim>\<open>RuntimeError\<close>; the others are Python's own. The model raises
  \<open>RuntimeError\<close> whenever the operands do not have the shapes the docstrings give
  (PyTorch would broadcast some of these).
\<close>

datatype error =
  KeyError string | IndexError | RuntimeError | TypeError | ValueError | ZeroDivisionError

definition bindE :: "error + 'a \<Rightarrow> ('a \<Rightarrow> error + 'b) \<Rightarrow> error + 'b" where
  "bindE m f = (case m of Inl e \<Rightarrow> Inl e | Inr v \<Rightarrow> f v)"

definition ncols :: "'a list list \<Rightarrow> nat" where
  "ncols a = (case a of [] \<Rightarrow> 0 | r # _ \<Rightarrow> length r)"

definition dot :: "vec \<Rightarrow> vec \<Rightarrow> real" where
  "dot r c = sum_list (map2 (*) r c)"

text \<open>\<^verbatim>\<open>torch.mm(a, b)\<close>: every row of \<open>a\<close> against every column of \<open>b\<close>.\<close>

definition mm :: "mat \<Rightarrow> mat \<Rightarrow> mat" where
  "mm a b = map (\<lambda>r. map (\<lambda>c. dot r c) (transpose b)) a"

text \<open>\<^verbatim>\<open>a + b\<close> with the bias \<open>b\<close> broadcast over the rows of \<open>a\<close>.\<close>

definition add_bias :: "mat \<Rightarrow> vec \<Rightarrow> mat" where
  "add_bias a b = map (\<lambda>r. map2 (+) r b) a"

text \<open>\<^verbatim>\<open>torch.sum(a, dim=0)\<close>: the sums of the columns.\<close>

definition sum_dim0 :: "mat \<Rightarrow> vec" where
  "sum_dim0 a = map sum_list (transpose a)"

text \<open>\<^verbatim>\<open>torch.sum(a)\<close> and the elementwise product of two tensors of one shape.\<close>

definition sum_all :: "mat \<Rightarrow> real" where
  "sum_all a = sum_list (map sum_list a)"

definition mul_elem :: "mat \<Rightarrow> mat \<Rightarrow> mat" where
  "mul_elem a b = map2 (map2 (*)) a b"

definition same_shape :: "mat \<Rightarrow> mat \<Rightarrow> bool" where
  "same_shape a b = (map length a = map length b)"

section \<open>Layer primitives\<close>

subsection \<open>Linear\<close>

text \<open>
  \<^verbatim>\<open>out = torch.mm(x.reshape(N,D), w) + b; cache = (x, w, b)\<close>. The product
  needs the rows of \<open>x\<close> to be as long as \<open>w\<close> has rows, the sum a bias of the
  width of \<open>w\<close>.
\<close>

definition Linear_forward :: "mat \<Rightarrow> mat \<Rightarrow> vec \<Rightarrow> error + (mat \<times> (mat \<times> mat \<times> vec))" where
  "Linear_forward x w b =
     (if list_all (\<lambda>r. length r = length w) x \<and> length b = ncols w
      then Inr (add_bias (mm x w) b, (x, w, b))
      else Inl RuntimeError)"

text \<open>
  \<^verbatim>\<open>dx = torch.mm(dout, w.t()).reshape(x.size());
  dw = torch.mm(x.reshape(N,D).t(), dout); db = torch.sum(dout, dim=0)\<close>.
\<close>

definition Linear_backward :: "mat \<Rightarrow> (mat \<times> mat \<times> vec) \<Rightarrow> error + (mat \<times> mat \<times> vec)" where
  "Linear_backward dout cache =
     (case cache of (x, w, b) \<Rightarrow>
        if list_all (\<lambda>r. length r = ncols w) dout \<and> length dout = length x
           \<and> list_all (\<lambda>r. length r = length w) x
        then Inr (mm dout (transpose w), mm (transpose x) dout, sum_dim0 dout)
        else Inl RuntimeError)"

subsection \<open>ReLU\<close>

text \<open>\<^verbatim>\<open>out = torch.max(x, torch.zeros_like(x)); cache = x\<close>.\<close>

definition ReLU_forward :: "mat \<Rightarrow> mat \<times> mat" where
  "ReLU_forward x = (map (map (\<lambda>v. max v 0)) x, x)"

text \<open>
  \<^verbatim>\<open>dx = dout * (cache > 0)\<close>: the comparison gives a tensor of booleans, which
  the product reads as 1 and 0.
\<close>

definition gt0 :: "mat \<Rightarrow> mat" where
  "gt0 a = map (map (\<lambda>v. if v > 0 then 1 else 0)) a"

definition ReLU_backward :: "mat \<Rightarrow> mat \<Rightarrow> error + mat" where
  "ReLU_backward dout cache =
     (if same_shape dout cache then Inr (mul_elem dout (gt0 cache)) else Inl RuntimeError)"

subsection \<open>Linear_ReLU\<close>

text \<open>
  The fused layer repeats the lines of the two layers instead of calling them:
  \<^verbatim>\<open>out_linear = torch.mm(x.reshape(N1,D1), w) + b;
  out = torch.max(out_linear, torch.zeros_like(out_linear));
  cache = (x, w, b, out_linear)\<close>.
\<close>

definition Linear_ReLU_forward ::
  "mat \<Rightarrow> mat \<Rightarrow> vec \<Rightarrow> error + (mat \<times> (mat \<times> mat \<times> vec \<times> mat))" where
  "Linear_ReLU_forward x w b =
     (if list_all (\<lambda>r. length r = length w) x \<and> length b = ncols w
      then (let out_linear = add_bias (mm x w) b;
                out = map (map (\<lambda>v. max v 0)) out_linear
            in Inr (out, (x, w, b, out_linear)))
      else Inl RuntimeError)"

text \<open>
  \<^verbatim>\<open>d_relu = dout * (out_linear > 0); dx = torch.mm(d_relu, w.t()).reshape(x.size());
  dw = torch.mm(x.reshape(N,D).t(), d_relu); db = torch.sum(d_relu, dim=0)\<close>.
\<close>

definition Linear_ReLU_backward ::
  "mat \<Rightarrow> (mat \<times> mat \<times> vec \<times> mat) \<Rightarrow> error + (mat \<times> mat \<times> vec)" where
  "Linear_ReLU_backward dout cache =
     (case cache of (x, w, b, out_linear) \<Rightarrow>
        if same_shape dout out_linear
        then (let d_relu = mul_elem dout (gt0 out_linear)
              in if list_all (\<lambda>r. length r = ncols w) d_relu \<and> length d_relu = length x
                    \<and> list_all (\<lambda>r. length r = length w) x
                 then Inr (mm d_relu (transpose w), mm (transpose x) d_relu, sum_dim0 d_relu)
                 else Inl RuntimeError)
        else Inl RuntimeError)"

section \<open>Floating-point range\<close>

text \<open>
  The tensors of the source are of type \<^verbatim>\<open>torch.float32\<close> (the default of both
  networks) or \<^verbatim>\<open>torch.float64\<close>. A result of a floating-point operation whose
  magnitude reaches the overflow threshold of the type (the largest float plus half a
  unit in the last place) is \<^verbatim>\<open>inf\<close> with its sign; one whose magnitude is at
  most half the smallest subnormal is zero; \<^verbatim>\<open>nan\<close> comes from
  \<^verbatim>\<open>inf/inf\<close>, \<^verbatim>\<open>0/0\<close>, \<^verbatim>\<open>inf - inf\<close> and the logarithm of a
  negative number, and every operation on it gives \<^verbatim>\<open>nan\<close> again. Within the
  range a result is taken as exact; the sign of a zero is not kept.
\<close>

datatype dtype = Float32 | Float64

datatype fl = Fin real | PInf | NInf | NaN

definition overflow_threshold :: "dtype \<Rightarrow> real" where
  "overflow_threshold dt =
     (case dt of Float32 \<Rightarrow> 2 ^ 128 - 2 ^ 103 | Float64 \<Rightarrow> 2 ^ 1024 - 2 ^ 970)"

definition underflow_threshold :: "dtype \<Rightarrow> real" where
  "underflow_threshold dt = (case dt of Float32 \<Rightarrow> 1 / 2 ^ 150 | Float64 \<Rightarrow> 1 / 2 ^ 1075)"

definition to_float :: "dtype \<Rightarrow> real \<Rightarrow> fl" where
  "to_float dt r =
     (if overflow_threshold dt \<le> \<bar>r\<bar> then (if 0 < r then PInf else NInf)
      else if \<bar>r\<bar> \<le> underflow_threshold dt then Fin 0
      else Fin r)"

fun fadd :: "dtype \<Rightarrow> fl \<Rightarrow> fl \<Rightarrow> fl" where
  "fadd dt (Fin a) (Fin b) = to_float dt (a + b)"
| "fadd dt NaN _ = NaN"
| "fadd dt _ NaN = NaN"
| "fadd dt PInf NInf = NaN"
| "fadd dt NInf PInf = NaN"
| "fadd dt PInf _ = PInf"
| "fadd dt _ PInf = PInf"
| "fadd dt NInf _ = NInf"
| "fadd dt _ NInf = NInf"

fun fneg :: "fl \<Rightarrow> fl" where
  "fneg (Fin a) = Fin (- a)"
| "fneg PInf = NInf"
| "fneg NInf = PInf"
| "fneg NaN = NaN"

fun fdiv :: "dtype \<Rightarrow> fl \<Rightarrow> fl \<Rightarrow> fl" where
  "fdiv dt (Fin a) (Fin b) =
     (if b = 0 then (if a = 0 then NaN else if 0 < a then PInf else NInf)
      else to_float dt (a / b))"
| "fdiv dt NaN _ = NaN"
| "fdiv dt _ NaN = NaN"
| "fdiv dt (Fin a) _ = Fin 0"
| "fdiv dt PInf (Fin b) = (if 0 \<le> b then PInf else NInf)"
| "fdiv dt NInf (Fin b) = (if 0 \<le> b then NInf else PInf)"
| "fdiv dt _ _ = NaN"

fun flog :: "dtype \<Rightarrow> fl \<Rightarrow> fl" where
  "flog dt (Fin a) = (if 0 < a then to_float dt (ln a) else if a = 0 then NInf else NaN)"
| "flog dt PInf = PInf"
| "flog dt NInf = NaN"
| "flog dt NaN = NaN"

text \<open>\<^verbatim>\<open>torch.exp\<close> of a finite entry, and \<^verbatim>\<open>torch.sum\<close> of a list of floats.\<close>

definition fexp :: "dtype \<Rightarrow> real \<Rightarrow> fl" where
  "fexp dt v = to_float dt (exp v)"

definition fsum :: "dtype \<Rightarrow> fl list \<Rightarrow> fl" where
  "fsum dt xs = foldl (fadd dt) (Fin 0) xs"

text \<open>The entries of a tensor all of whose entries are finite, or \<open>None\<close>.\<close>

definition fin_of :: "fl \<Rightarrow> real option" where
  "fin_of a = (case a of Fin r \<Rightarrow> Some r | _ \<Rightarrow> None)"

definition finite_mat :: "fl list list \<Rightarrow> mat option" where
  "finite_mat a = those (map (\<lambda>r. those (map fin_of r)) a)"

section \<open>Softmax loss\<close>

text \<open>
  \<^verbatim>\<open>f = torch.exp(x) / torch.sum(torch.exp(x), axis=1, keepdims=True)\<close>: every
  row is divided by the sum of its exponentials. The source exponentiates the scores as
  they are, without subtracting the largest of the row first.
\<close>

definition softmax_row :: "dtype \<Rightarrow> vec \<Rightarrow> fl list" where
  "softmax_row dt r =
     (let e = map (fexp dt) r; s = fsum dt e in map (\<lambda>a. fdiv dt a s) e)"

definition softmax :: "dtype \<Rightarrow> mat \<Rightarrow> fl list list" where
  "softmax dt x = map (softmax_row dt) x"

text \<open>
  The index pairs of \<^verbatim>\<open>f[torch.arange(N), y]\<close>. The label tensor must have one
  entry for each row; a label \<open>k\<close> with \<open>-C \<le> k < 0\<close> counts from the end of the row,
  as every Python index does, and a label outside \<open>[-C, C)\<close> raises
  \<^verbatim>\<open>IndexError\<close>.
\<close>

definition label_index :: "'a list list \<Rightarrow> int list \<Rightarrow> error + nat list" where
  "label_index f y =
     (let C = int (ncols f)
      in if length y = length f \<and> list_all (\<lambda>k. - C \<le> k \<and> k < C) y
         then Inr (map (\<lambda>k. nat (if k < 0 then k + C else k)) y)
         else Inl IndexError)"

text \<open>
  \<^verbatim>\<open>loss = -torch.sum(torch.log(f[torch.arange(N),y])) / N; dx = f;
  dx[torch.arange(N),y] -= 1; dx /= N\<close>. The name \<open>dx\<close> is an alias of \<open>f\<close> and
  both updates are in place, after the loss has been read from \<open>f\<close>. The first argument
  of the model is the type of the tensor \<open>x\<close>.
\<close>

definition softmax_loss :: "dtype \<Rightarrow> mat \<Rightarrow> int list \<Rightarrow> error + (fl \<times> fl list list)" where
  "softmax_loss dt x y =
     (let f = softmax dt x; N = length x
      in bindE (label_index f y) (\<lambda>ks.
           let loss = fdiv dt (fneg (fsum dt (map2 (\<lambda>r k. flog dt (r ! k)) f ks))) (Fin (real N));
               dx = map2 (\<lambda>r k. r[k := fadd dt (r ! k) (fneg (Fin 1))]) f ks;
               dx = map (map (\<lambda>v. fdiv dt v (Fin (real N)))) dx
           in Inr (loss, dx)))"

section \<open>TwoLayerNet\<close>

text \<open>
  The parameters live in a dictionary from names to tensors. A weight that is missing
  raises \<^verbatim>\<open>KeyError\<close>; one of the wrong rank is refused by the tensor operation
  that receives it.
\<close>

definition get_mat :: "(string \<rightharpoonup> tensor) \<Rightarrow> string \<Rightarrow> error + mat" where
  "get_mat ps k =
     (case ps k of None \<Rightarrow> Inl (KeyError k) | Some (Mat w) \<Rightarrow> Inr w | Some (Vec _) \<Rightarrow> Inl RuntimeError)"

definition get_vec :: "(string \<rightharpoonup> tensor) \<Rightarrow> string \<Rightarrow> error + vec" where
  "get_vec ps k =
     (case ps k of None \<Rightarrow> Inl (KeyError k) | Some (Vec b) \<Rightarrow> Inr b | Some (Mat _) \<Rightarrow> Inl RuntimeError)"

text \<open>
  What \<open>loss\<close> returns: the scores when \<open>y\<close> is \<open>None\<close>, the pair of the loss and the
  dictionary of gradients otherwise. When the loss or the gradient that \<open>softmax_loss\<close>
  returns is not finite, the source goes on with them, and the loss it returns is
  \<^verbatim>\<open>inf\<close> or \<^verbatim>\<open>nan\<close>; the model does not follow that computation and returns
  the two results of \<open>softmax_loss\<close> as \<open>NonFinite\<close>.
\<close>

datatype loss_result =
  Scores "fl list list" | LossGrads real "string \<rightharpoonup> tensor" | NonFinite fl "fl list list"

text \<open>
  \<open>TwoLayerNet\<close> does not store the \<open>dtype\<close> that \<open>__init__\<close> receives, but every
  parameter tensor is created with it; the model keeps it in the field \<open>tl_dtype\<close>.
\<close>

record TwoLayerNet =
  tl_dtype :: dtype
  tl_reg :: real
  tl_params :: "string \<rightharpoonup> tensor"

text \<open>
  \<open>TwoLayerNet.loss\<close>. The two assignments that unpack the caches store the tensors
  of \<open>self.params\<close> back under their own keys, so the object is left as it was and the
  model returns the result alone.
\<close>

definition TwoLayerNet_loss :: "TwoLayerNet \<Rightarrow> mat \<Rightarrow> int list option \<Rightarrow> error + loss_result" where
  "TwoLayerNet_loss self X y =
     bindE (get_mat (tl_params self) ''W1'') (\<lambda>W1.
     bindE (get_vec (tl_params self) ''b1'') (\<lambda>b1.
     bindE (Linear_ReLU_forward X W1 b1) (\<lambda>(Lrelu_out1, cache1).
     bindE (get_mat (tl_params self) ''W2'') (\<lambda>W2.
     bindE (get_vec (tl_params self) ''b2'') (\<lambda>b2.
     bindE (Linear_forward Lrelu_out1 W2 b2) (\<lambda>(linear_out2, cache2).
       (let scores = softmax (tl_dtype self) linear_out2
        in (case y of
              None \<Rightarrow> Inr (Scores scores)
            | Some y \<Rightarrow>
                bindE (softmax_loss (tl_dtype self) linear_out2 y) (\<lambda>(floss, fds).
                  (case (fin_of floss, finite_mat fds) of
                     (Some loss, Some ds) \<Rightarrow>
                       (let loss = loss + tl_reg self *
                                   (sum_all (mul_elem W1 W1) + sum_all (mul_elem W2 W2))
                        in bindE (Linear_backward ds cache2) (\<lambda>(dLrelu_out1, dw2, db2).
                           bindE (Linear_ReLU_backward dLrelu_out1 cache1) (\<lambda>(dx, dw1, db1).
                             Inr (LossGrads loss
                                    (Map.empty(''W1'' \<mapsto> Mat dw1, ''W2'' \<mapsto> Mat dw2,
                                               ''b1'' \<mapsto> Vec db1, ''b2'' \<mapsto> Vec db2))))))
                   | _ \<Rightarrow> Inr (NonFinite floss fds)))))))))))"

section \<open>Dropout\<close>

text \<open>
  The dictionary \<open>dropout_param\<close> has the keys \<open>p\<close>, \<open>mode\<close> and \<open>seed\<close>, each of
  which may be absent. The random generator of PyTorch is a collaborator outside the
  source: the model takes it as two parameters, \<open>manual_seed\<close>, which gives the
  generator state that a seed selects, and \<open>draw\<close>, which gives one sample and the
  next state. The generator state is passed through every function that can touch it.
\<close>

record dropout_param =
  dp_p :: "real option"
  dp_mode :: "string option"
  dp_seed :: "int option"

text \<open>\<^verbatim>\<open>torch.rand_like(x)\<close>: one sample for each entry of \<open>x\<close>, row by row.\<close>

fun rand_n :: "('g \<Rightarrow> real \<times> 'g) \<Rightarrow> 'g \<Rightarrow> nat \<Rightarrow> vec \<times> 'g" where
  "rand_n draw g 0 = ([], g)"
| "rand_n draw g (Suc n) =
     (case draw g of (u, g1) \<Rightarrow> (case rand_n draw g1 n of (us, g2) \<Rightarrow> (u # us, g2)))"

fun rand_like :: "('g \<Rightarrow> real \<times> 'g) \<Rightarrow> 'g \<Rightarrow> mat \<Rightarrow> mat \<times> 'g" where
  "rand_like draw g [] = ([], g)"
| "rand_like draw g (r # rs) =
     (case rand_n draw g (length r) of (us, g1) \<Rightarrow>
        (case rand_like draw g1 rs of (m, g2) \<Rightarrow> (us # m, g2)))"

text \<open>
  \<open>Dropout.forward\<close>. The keys \<open>p\<close> and \<open>mode\<close> are read first, the generator is
  seeded when a seed is present, and \<open>p\<close> becomes the keep probability \<open>1 - p\<close>. A mode
  other than \<open>train\<close> and \<open>test\<close> falls through both branches: \<open>out\<close> and \<open>mask\<close> keep
  their initial \<open>None\<close> and are returned so.
\<close>

definition Dropout_forward ::
  "(int \<Rightarrow> 'g) \<Rightarrow> ('g \<Rightarrow> real \<times> 'g) \<Rightarrow> 'g \<Rightarrow> mat \<Rightarrow> dropout_param \<Rightarrow>
     error + ((mat option \<times> (dropout_param \<times> mat option)) \<times> 'g)" where
  "Dropout_forward manual_seed draw g x dropout_param =
     (case dp_p dropout_param of
        None \<Rightarrow> Inl (KeyError ''p'')
      | Some p0 \<Rightarrow>
          (case dp_mode dropout_param of
             None \<Rightarrow> Inl (KeyError ''mode'')
           | Some mode \<Rightarrow>
               (let g1 = (case dp_seed dropout_param of None \<Rightarrow> g | Some s \<Rightarrow> manual_seed s);
                    p = 1 - p0
                in if mode = ''train''
                   then (case rand_like draw g1 x of (random, g2) \<Rightarrow>
                           (let dmask = map (map (\<lambda>u. (if u < p then 1 else 0) / p)) random;
                                out = mul_elem dmask x
                            in Inr ((Some out, (dropout_param, Some dmask)), g2)))
                   else if mode = ''test''
                   then Inr ((Some x, (dropout_param, None)), g1)
                   else Inr ((None, (dropout_param, None)), g1))))"

text \<open>
  \<open>Dropout.backward\<close>, with the mask of the source under the name \<open>dmask\<close>:
  \<^verbatim>\<open>dx = dout * mask\<close> in train mode, \<open>dout\<close> itself in
  test mode, \<open>None\<close> for any other mode.
\<close>

definition Dropout_backward :: "mat \<Rightarrow> (dropout_param \<times> mat option) \<Rightarrow> error + mat option" where
  "Dropout_backward dout cache =
     (case cache of (dropout_param, dmask) \<Rightarrow>
        (case dp_mode dropout_param of
           None \<Rightarrow> Inl (KeyError ''mode'')
         | Some mode \<Rightarrow>
             if mode = ''train''
             then (case dmask of
                     None \<Rightarrow> Inl TypeError
                   | Some m \<Rightarrow> if same_shape dout m then Inr (Some (mul_elem dout m))
                               else Inl RuntimeError)
             else if mode = ''test'' then Inr (Some dout)
             else Inr None))"

section \<open>FullyConnectedNet\<close>

text \<open>Python's \<open>str\<close> on a natural number, and a list index that may be negative.\<close>

fun str :: "nat \<Rightarrow> string" where
  "str n = (if n < 10 then [''0123456789'' ! n] else str (n div 10) @ [''0123456789'' ! (n mod 10)])"

definition py_index :: "'a list \<Rightarrow> int \<Rightarrow> error + 'a" where
  "py_index xs i =
     (let n = int (length xs); j = (if i < 0 then n + i else i)
      in if 0 \<le> j \<and> j < n then Inr (xs ! nat j) else Inl IndexError)"

record FullyConnectedNet =
  fc_use_dropout :: bool
  fc_reg :: real
  fc_num_layers :: nat
  fc_dtype :: dtype
  fc_params :: "string \<rightharpoonup> tensor"
  fc_dropout_param :: dropout_param

definition scale :: "real \<Rightarrow> mat \<Rightarrow> mat" where
  "scale c a = map (map (\<lambda>v. c * v)) a"

definition mat_add :: "mat \<Rightarrow> mat \<Rightarrow> mat" where
  "mat_add a b = map2 (map2 (+)) a b"

text \<open>
  The loop of \<open>__init__\<close> over \<^verbatim>\<open>range(1, self.num_layers-1)\<close>, which creates
  the weights and biases of the layers between the first and the last.
  \<^verbatim>\<open>torch.randn\<close> is the parameter \<open>randn\<close>: from a generator state and a shape
  to a tensor of that shape and the next state.
\<close>

fun init_hidden ::
  "('g \<Rightarrow> nat \<Rightarrow> nat \<Rightarrow> mat \<times> 'g) \<Rightarrow> real \<Rightarrow> nat list \<Rightarrow> nat list \<Rightarrow>
     (string \<rightharpoonup> tensor) \<times> 'g \<Rightarrow> error + ((string \<rightharpoonup> tensor) \<times> 'g)" where
  "init_hidden randn weight_scale hidden_dims [] st = Inr st"
| "init_hidden randn weight_scale hidden_dims (i # is) st =
     (case st of (params, g) \<Rightarrow>
        bindE (py_index hidden_dims (int i - 1)) (\<lambda>d_in.
        bindE (py_index hidden_dims (int i)) (\<lambda>d_out.
          (case randn g d_in d_out of (w, g1) \<Rightarrow>
             (let params = params(''W'' @ str (i + 1) \<mapsto> Mat (scale weight_scale w))
              in bindE (py_index hidden_dims (int i)) (\<lambda>d.
                   init_hidden randn weight_scale hidden_dims is
                     (params(''b'' @ str (i + 1) \<mapsto> Vec (replicate d 0)), g1)))))))"

text \<open>
  \<open>FullyConnectedNet.__init__\<close>. After the loop it reads \<^verbatim>\<open>hidden_dims[0]\<close> for
  the first layer and \<^verbatim>\<open>hidden_dims[self.num_layers-2]\<close> for the last one. The
  device of the tensors is not modelled.
\<close>

definition FullyConnectedNet_init ::
  "('g \<Rightarrow> nat \<Rightarrow> nat \<Rightarrow> mat \<times> 'g) \<Rightarrow> 'g \<Rightarrow> nat list \<Rightarrow> nat \<Rightarrow> nat \<Rightarrow> real \<Rightarrow> real \<Rightarrow> real \<Rightarrow>
     int option \<Rightarrow> dtype \<Rightarrow> error + (FullyConnectedNet \<times> 'g)" where
  "FullyConnectedNet_init randn g hidden_dims input_dim num_classes dropout reg weight_scale seed
       dtype =
     (let use_dropout = (dropout \<noteq> 0);
          num_layers = 1 + length hidden_dims
      in bindE (init_hidden randn weight_scale hidden_dims [1..<num_layers - 1] (Map.empty, g))
           (\<lambda>(params, g).
         bindE (py_index hidden_dims 0) (\<lambda>h0.
           (case randn g input_dim h0 of (w, g) \<Rightarrow>
              (let params = params(''W1'' \<mapsto> Mat (scale weight_scale w))
               in bindE (py_index hidden_dims 0) (\<lambda>h0.
                    (let params = params(''b1'' \<mapsto> Vec (replicate h0 0))
                     in bindE (py_index hidden_dims (int num_layers - 2)) (\<lambda>hl.
                          (case randn g hl num_classes of (w, g) \<Rightarrow>
                             (let params = params(''W'' @ str num_layers \<mapsto> Mat (scale weight_scale w));
                                  params = params(''b'' @ str num_layers \<mapsto>
                                                    Vec (replicate num_classes 0));
                                  dropout_param =
                                    (if use_dropout
                                     then \<lparr>dp_p = Some dropout, dp_mode = Some ''train'', dp_seed = seed\<rparr>
                                     else \<lparr>dp_p = None, dp_mode = None, dp_seed = None\<rparr>)
                              in Inr (\<lparr>fc_use_dropout = use_dropout, fc_reg = reg,
                                        fc_num_layers = num_layers, fc_dtype = dtype,
                                        fc_params = params,
                                        fc_dropout_param = dropout_param\<rparr>, g)))))))))))"

text \<open>
  During \<open>loss\<close> the dictionaries \<open>out\<close>, \<open>cache\<close>, \<open>cache_drop\<close> and \<open>dout\<close> are
  keyed by the layer number. An entry of \<open>cache\<close> is the 3-tuple of \<open>Linear.forward\<close>
  or the 4-tuple of \<open>Linear_ReLU.forward\<close>; unpacking the wrong one raises
  \<^verbatim>\<open>ValueError\<close>. \<open>Dropout\<close> gives \<open>None\<close> for an unknown mode, and the next
  tensor operation on a \<open>None\<close> raises \<^verbatim>\<open>TypeError\<close>; inside \<open>loss\<close> the mode
  has been set to \<open>train\<close> or \<open>test\<close> before, so that case does not arise there.
\<close>

datatype layer_cache = LinearCache "mat \<times> mat \<times> vec" | LinearReLUCache "mat \<times> mat \<times> vec \<times> mat"

definition get_item :: "(nat \<rightharpoonup> 'a) \<Rightarrow> nat \<Rightarrow> error + 'a" where
  "get_item d k = (case d k of None \<Rightarrow> Inl (KeyError (str k)) | Some v \<Rightarrow> Inr v)"

definition as_linear :: "layer_cache \<Rightarrow> error + (mat \<times> mat \<times> vec)" where
  "as_linear c = (case c of LinearCache t \<Rightarrow> Inr t | LinearReLUCache _ \<Rightarrow> Inl ValueError)"

definition as_linear_relu :: "layer_cache \<Rightarrow> error + (mat \<times> mat \<times> vec \<times> mat)" where
  "as_linear_relu c = (case c of LinearReLUCache t \<Rightarrow> Inr t | LinearCache _ \<Rightarrow> Inl ValueError)"

definition need_tensor :: "mat option \<Rightarrow> error + mat" where
  "need_tensor t = (case t of None \<Rightarrow> Inl TypeError | Some a \<Rightarrow> Inr a)"

text \<open>
  The forward loop over \<^verbatim>\<open>range(0, self.num_layers-1)\<close>:
  \<^verbatim>\<open>out[i+1], cache[i+1] = Linear_ReLU.forward(out[i], W(i+1), b(i+1))\<close> and, with
  dropout, \<^verbatim>\<open>out[i+1], cache_drop[i+1] = Dropout.forward(out[i+1], self.dropout_param)\<close>.
\<close>

fun forward_loop ::
  "(int \<Rightarrow> 'g) \<Rightarrow> ('g \<Rightarrow> real \<times> 'g) \<Rightarrow> FullyConnectedNet \<Rightarrow> nat list \<Rightarrow>
     (nat \<rightharpoonup> mat) \<times> (nat \<rightharpoonup> layer_cache) \<times> (nat \<rightharpoonup> dropout_param \<times> mat option) \<times> 'g \<Rightarrow>
     error + ((nat \<rightharpoonup> mat) \<times> (nat \<rightharpoonup> layer_cache) \<times> (nat \<rightharpoonup> dropout_param \<times> mat option) \<times> 'g)"
  where
  "forward_loop manual_seed draw self [] st = Inr st"
| "forward_loop manual_seed draw self (i # is) st =
     (case st of (out, cache, cache_drop, g) \<Rightarrow>
        bindE (get_item out i) (\<lambda>x.
        bindE (get_mat (fc_params self) (''W'' @ str (i + 1))) (\<lambda>W.
        bindE (get_vec (fc_params self) (''b'' @ str (i + 1))) (\<lambda>b.
        bindE (Linear_ReLU_forward x W b) (\<lambda>(o1, c).
          (let out = out(i + 1 \<mapsto> o1); cache = cache(i + 1 \<mapsto> LinearReLUCache c)
           in if fc_use_dropout self
              then bindE (get_item out (i + 1)) (\<lambda>o1.
                   bindE (Dropout_forward manual_seed draw g o1 (fc_dropout_param self))
                     (\<lambda>((o2, dc), g).
                   bindE (need_tensor o2) (\<lambda>o2.
                     forward_loop manual_seed draw self is
                       (out(i + 1 \<mapsto> o2), cache, cache_drop(i + 1 \<mapsto> dc), g))))
              else forward_loop manual_seed draw self is (out, cache, cache_drop, g)))))))"

text \<open>
  One application of \<^verbatim>\<open>dout[k] = Dropout.backward(dout[k], cache_drop[j])\<close>, which
  the source performs only when dropout is in use.
\<close>

definition dropout_back_step ::
  "FullyConnectedNet \<Rightarrow> (nat \<rightharpoonup> dropout_param \<times> mat option) \<Rightarrow> nat \<Rightarrow> nat \<Rightarrow> (nat \<rightharpoonup> mat) \<Rightarrow>
     error + (nat \<rightharpoonup> mat)" where
  "dropout_back_step self cache_drop k j dout =
     (if fc_use_dropout self
      then bindE (get_item dout k) (\<lambda>d.
           bindE (get_item cache_drop j) (\<lambda>dc.
           bindE (Dropout_backward d dc) (\<lambda>d.
           bindE (need_tensor d) (\<lambda>d. Inr (dout(k \<mapsto> d))))))
      else Inr dout)"

text \<open>
  The backward loop over \<^verbatim>\<open>range(self.num_layers-1, 1, -1)\<close>, that is over the
  layers \<open>L - 1\<close> down to 2. Each round adds \<^verbatim>\<open>self.reg * grads['W'+str(i)]\<close> to the
  gradient of the weight \<open>i\<close> and the penalty of the weight \<open>i + 1\<close> to the loss.
\<close>

fun backward_loop ::
  "FullyConnectedNet \<Rightarrow> (nat \<rightharpoonup> layer_cache) \<Rightarrow> (nat \<rightharpoonup> dropout_param \<times> mat option) \<Rightarrow> nat list \<Rightarrow>
     (nat \<rightharpoonup> mat) \<times> (string \<rightharpoonup> tensor) \<times> real \<Rightarrow>
     error + ((nat \<rightharpoonup> mat) \<times> (string \<rightharpoonup> tensor) \<times> real)" where
  "backward_loop self cache cache_drop [] st = Inr st"
| "backward_loop self cache cache_drop (i # is) st =
     (case st of (dout, grads, loss) \<Rightarrow>
        bindE (dropout_back_step self cache_drop (i + 1) i dout) (\<lambda>dout.
        bindE (get_item dout (i + 1)) (\<lambda>d.
        bindE (get_item cache i) (\<lambda>c.
        bindE (as_linear_relu c) (\<lambda>c.
        bindE (Linear_ReLU_backward d c) (\<lambda>(dx, dw, db).
          (let dout = dout(i \<mapsto> dx);
               grads = grads(''W'' @ str i \<mapsto> Mat dw, ''b'' @ str i \<mapsto> Vec db);
               grads = grads(''W'' @ str i \<mapsto> Mat (mat_add dw (scale (fc_reg self) dw)))
           in bindE (get_mat (fc_params self) (''W'' @ str (i + 1))) (\<lambda>W.
                (let loss = loss + 0.5 * fc_reg self * sum_all (mul_elem W W)
                 in backward_loop self cache cache_drop is (dout, grads, loss))))))))))"

text \<open>
  \<open>FullyConnectedNet.loss\<close>. It writes the mode into \<open>self.dropout_param\<close> and may
  advance the random generator, so the model returns the object and the generator
  state with the result. \<open>num_layers\<close> is at least 1 in every object that
  \<open>__init__\<close> builds. The input is converted to \<open>self.dtype\<close>, which is the type
  of the scores that \<open>softmax_loss\<close> receives. In test mode the scores are the output
  of the last linear layer, which the model takes as finite.
\<close>

definition FullyConnectedNet_loss ::
  "(int \<Rightarrow> 'g) \<Rightarrow> ('g \<Rightarrow> real \<times> 'g) \<Rightarrow> FullyConnectedNet \<Rightarrow> 'g \<Rightarrow> mat \<Rightarrow> int list option \<Rightarrow>
     error + (loss_result \<times> FullyConnectedNet \<times> 'g)" where
  "FullyConnectedNet_loss manual_seed draw self0 g X y =
     (let mode = (case y of None \<Rightarrow> ''test'' | Some _ \<Rightarrow> ''train'');
          self = (if fc_use_dropout self0
                  then self0\<lparr>fc_dropout_param := (fc_dropout_param self0)\<lparr>dp_mode := Some mode\<rparr>\<rparr>
                  else self0);
          L = fc_num_layers self
      in bindE (forward_loop manual_seed draw self [0..<L - 1]
                  (Map.empty(0 \<mapsto> X), Map.empty, Map.empty, g))
           (\<lambda>(out, cache, cache_drop, g).
         bindE (get_item out (L - 1)) (\<lambda>x.
         bindE (get_mat (fc_params self) (''W'' @ str L)) (\<lambda>W.
         bindE (get_vec (fc_params self) (''b'' @ str L)) (\<lambda>b.
         bindE (Linear_forward x W b) (\<lambda>(scores, c).
           (let cache = cache(L \<mapsto> LinearCache c)
            in bindE (if fc_use_dropout self
                      then bindE (Dropout_forward manual_seed draw g scores (fc_dropout_param self))
                             (\<lambda>((s, dc), g).
                           bindE (need_tensor s) (\<lambda>s. Inr (s, cache_drop(L \<mapsto> dc), g)))
                      else Inr (scores, cache_drop, g))
                 (\<lambda>(scores, cache_drop, g).
                   (case y of
                      None \<Rightarrow> Inr (Scores (map (map Fin) scores), self, g)
                    | Some y \<Rightarrow>
                        bindE (softmax_loss (fc_dtype self) scores y) (\<lambda>(floss, fds).
                        (case (fin_of floss, finite_mat fds) of
                           (Some loss, Some ds) \<Rightarrow>
                        bindE (if fc_use_dropout self
                               then bindE (get_item cache_drop L) (\<lambda>dc.
                                    bindE (Dropout_backward ds dc) need_tensor)
                               else Inr ds) (\<lambda>ds.
                        bindE (get_item cache L) (\<lambda>c.
                        bindE (as_linear c) (\<lambda>c.
                        bindE (Linear_backward ds c) (\<lambda>(d, dw, db).
                          (let dout = Map.empty(L \<mapsto> d);
                               grads = Map.empty(''W'' @ str L \<mapsto> Mat dw, ''b'' @ str L \<mapsto> Vec db);
                               grads = grads(''W'' @ str L \<mapsto> Mat (mat_add dw (scale (fc_reg self) dw)))
                           in bindE (backward_loop self cache cache_drop (rev [2..<L])
                                       (dout, grads, loss)) (\<lambda>(dout, grads, loss).
                              bindE (dropout_back_step self cache_drop 2 1 dout) (\<lambda>dout.
                              bindE (get_item dout 2) (\<lambda>d.
                              bindE (get_item cache 1) (\<lambda>c.
                              bindE (as_linear_relu c) (\<lambda>c.
                              bindE (Linear_ReLU_backward d c) (\<lambda>(dx, dw1, db1).
                                (let grads = grads(''W1'' \<mapsto> Mat dw1, ''b1'' \<mapsto> Vec db1)
                                 in bindE (get_mat (fc_params self) ''W1'') (\<lambda>W1.
                                      Inr (LossGrads
                                             (loss + 0.5 * fc_reg self * sum_all (mul_elem W1 W1))
                                             grads, self, g))))))))))))))
                            | _ \<Rightarrow> Inr (NonFinite floss fds, self, g))))))))))))"

section \<open>The Adam update rule\<close>

text \<open>
  The configuration is a dictionary in which every key may be absent; \<open>adam\<close> fills the
  absent ones with \<^verbatim>\<open>config.setdefault\<close> and returns the dictionary with all seven
  keys present. \<open>setdefault c d\<close> is the value under a key after that call. The tensors
  \<open>w\<close>, \<open>dw\<close>, \<open>m\<close> and \<open>v\<close> are combined entry by entry, so they are taken as the
  lists of their entries. The step counter is a Python integer, and a float raised to a
  negative integer power is the reciprocal of the positive power, or
  \<^verbatim>\<open>ZeroDivisionError\<close> for the base 0.
\<close>

record adam_config =
  cfg_learning_rate :: "real option"
  cfg_beta1 :: "real option"
  cfg_beta2 :: "real option"
  cfg_epsilon :: "real option"
  cfg_m :: "vec option"
  cfg_v :: "vec option"
  cfg_t :: "int option"

definition setdefault :: "'a option \<Rightarrow> 'a \<Rightarrow> 'a" where
  "setdefault c d = (case c of None \<Rightarrow> d | Some v \<Rightarrow> v)"

definition py_pow :: "real \<Rightarrow> int \<Rightarrow> error + real" where
  "py_pow b n =
     (if 0 \<le> n then Inr (b ^ nat n)
      else if b = 0 then Inl ZeroDivisionError
      else Inr (inverse (b ^ nat (- n))))"

definition adam :: "vec \<Rightarrow> vec \<Rightarrow> adam_config option \<Rightarrow> error + (vec \<times> adam_config)" where
  "adam w dw config =
     (let c = (case config of
                 None \<Rightarrow> \<lparr>cfg_learning_rate = None, cfg_beta1 = None, cfg_beta2 = None,
                           cfg_epsilon = None, cfg_m = None, cfg_v = None, cfg_t = None\<rparr>
               | Some c \<Rightarrow> c);
          learning_rate = setdefault (cfg_learning_rate c) (1 / 1000);
          beta1 = setdefault (cfg_beta1 c) (9 / 10);
          beta2 = setdefault (cfg_beta2 c) (999 / 1000);
          epsilon = setdefault (cfg_epsilon c) (1 / 100000000);
          m = setdefault (cfg_m c) (replicate (length w) 0);
          v = setdefault (cfg_v c) (replicate (length w) 0);
          t = setdefault (cfg_t c) 0;
          t = t + 1
      in if length m \<noteq> length dw then Inl RuntimeError
         else (let m = map2 (\<lambda>a d. beta1 * a + (1 - beta1) * d) m dw
               in bindE (py_pow beta1 t) (\<lambda>p1.
                    (let mh = map (\<lambda>a. a / (1 - p1)) m
                     in if length v \<noteq> length dw then Inl RuntimeError
                        else (let v = map2 (\<lambda>a d. beta2 * a + (1 - beta2) * d ^ 2) v dw
                              in bindE (py_pow beta2 t) (\<lambda>p2.
                                   (let vh = map (\<lambda>a. a / (1 - p2)) v
                                    in if length w \<noteq> length dw then Inl RuntimeError
                                       else Inr (map2 (\<lambda>x (a, b). x - learning_rate * (a / (sqrt b + epsilon)))
                                                   w (zip mh vh),
                                                 \<lparr>cfg_learning_rate = Some learning_rate,
                                                  cfg_beta1 = Some beta1, cfg_beta2 = Some beta2,
                                                  cfg_epsilon = Some epsilon, cfg_m = Some m,
                                                  cfg_v = Some v, cfg_t = Some t\<rparr>))))))))"

section \<open>A small generator for the examples\<close>

text \<open>
  A generator with sixteen states, used where a statement needs a concrete one: the seed
  selects a state, and a draw returns the state scaled into \<open>[0, 1)\<close> and steps it.
\<close>

definition example_seed :: "int \<Rightarrow> nat" where
  "example_seed s = nat (s mod 16)"

definition example_draw :: "nat \<Rightarrow> real \<times> nat" where
  "example_draw g = (real (g mod 16) / 16, (5 * g + 3) mod 16)"

section \<open>Exponentials inside and outside the range\<close>

lemma to_float_mid: "1 / 1000 \<le> \<bar>r\<bar> \<Longrightarrow> \<bar>r\<bar> \<le> 1000 \<Longrightarrow> to_float dt r = Fin r"
  by (cases dt) (simp_all add: to_float_def overflow_threshold_def underflow_threshold_def)

lemma to_float_0: "to_float dt 0 = Fin 0"
  by (cases dt) (simp_all add: to_float_def overflow_threshold_def underflow_threshold_def)

lemma exp_1_bounds: "1 \<le> exp (1::real)" "exp (1::real) \<le> 3"
  using exp_le by simp_all

lemma exp_1000_ge: "(2::real) ^ 1024 \<le> exp 1000"
proof -
  have "(5::real) \<le> exp 2"
    using exp_lower_Taylor_quadratic [of "2::real"] by (simp add: power2_eq_square)
  then have "(5::real) ^ 500 \<le> exp 2 ^ 500"
    by (rule power_mono) simp
  also have "exp (2::real) ^ 500 = exp 1000"
    using exp_of_nat_mult [of 500 "2::real"] by simp
  finally have "(5::real) ^ 500 \<le> exp 1000" .
  moreover have "(2::real) ^ 1024 \<le> 5 ^ 500" by simp
  ultimately show ?thesis by linarith
qed

lemma exp_1000_overflow: "overflow_threshold dt \<le> \<bar>exp (1000::real)\<bar>"
  using exp_1000_ge by (cases dt) (simp_all add: overflow_threshold_def)

lemma fexp_1000: "fexp dt 1000 = PInf"
  using exp_1000_overflow [of dt] by (simp add: fexp_def to_float_def)

lemma fexp_0: "fexp dt 0 = Fin 1"
  by (simp add: fexp_def to_float_mid)

lemma fexp_1: "fexp dt 1 = Fin (exp 1)"
proof -
  have "(1::real) \<le> exp 1" by simp
  then have "1 / 1000 \<le> exp (1::real)" by linarith
  moreover have "exp (1::real) \<le> 1000" using exp_le by linarith
  ultimately have "1 / 1000 \<le> \<bar>exp (1::real)\<bar>" "\<bar>exp (1::real)\<bar> \<le> 1000"
    by simp_all
  then show ?thesis unfolding fexp_def by (rule to_float_mid)
qed

lemma ln_2_bounds: "1 / 1000 \<le> \<bar>ln (2::real)\<bar>" "\<bar>ln (2::real)\<bar> \<le> 1000"
proof -
  have "(1 / 2 :: real) - (1 / 2)\<^sup>2 \<le> ln (1 + 1 / 2)"
    by (rule ln_one_plus_pos_lower_bound) simp_all
  also have "ln (1 + 1 / 2 :: real) \<le> ln 2" by simp
  finally have lo: "(1 / 4 :: real) \<le> ln 2" by (simp add: power2_eq_square)
  have hi: "ln (2::real) \<le> 2 - 1" using ln_le_minus_one [of "2::real"] by simp
  from lo hi show "1 / 1000 \<le> \<bar>ln (2::real)\<bar>" "\<bar>ln (2::real)\<bar> \<le> 1000" by simp_all
qed

lemma to_float_ln_2: "to_float dt (ln 2) = Fin (ln 2)" "to_float dt (- ln 2) = Fin (- ln 2)"
  using ln_2_bounds by (simp_all add: to_float_mid)

lemma to_float_2_exp_1: "to_float dt (2 * exp 1) = Fin (2 * exp 1)"
proof -
  have "(1::real) \<le> exp 1" by simp
  then have "1 / 1000 \<le> 2 * exp (1::real)" by linarith
  moreover have "2 * exp (1::real) \<le> 1000" using exp_le by linarith
  moreover have "0 \<le> 2 * exp (1::real)" by simp
  ultimately have "1 / 1000 \<le> \<bar>2 * exp (1::real)\<bar>" "\<bar>2 * exp (1::real)\<bar> \<le> 1000"
    by (simp_all only: abs_of_nonneg)
  then show ?thesis by (rule to_float_mid)
qed

lemma to_float_exp_1: "to_float dt (exp 1) = Fin (exp 1)"
  using fexp_1 [of dt] by (simp add: fexp_def)

lemma softmax_row_1_1: "softmax_row dt [1, 1] = [Fin (1 / 2), Fin (1 / 2)]"
  by (simp add: softmax_row_def Let_def fexp_1 fsum_def to_float_exp_1 to_float_2_exp_1
      to_float_mid)

lemma softmax_loss_1_1:
  "softmax_loss dt [[1, 1]] [0] = Inr (Fin (ln 2), [[Fin (- (1 / 2)), Fin (1 / 2)]])"
  by (simp add: softmax_loss_def softmax_def softmax_row_1_1 Let_def label_index_def ncols_def
      bindE_def fsum_def to_float_mid to_float_ln_2 ln_div)

lemma softmax_row_1000_0: "softmax_row dt [1000, 0] = [NaN, Fin 0]"
  by (simp add: softmax_row_def Let_def fexp_1000 fexp_0 fsum_def to_float_mid)

section \<open>Regularization in the two networks\<close>

text \<open>
  C1. The claim asks that the loss of \<open>FullyConnectedNet.loss\<close> holds the penalty
  \<open>0.5 * reg * sum(W * W)\<close> of every weight matrix and that every weight gradient holds
  the share \<open>reg * W\<close>. The network below, of either float type, has one hidden layer,
  \<open>reg = 1\<close>, \<open>W1 = [[1]]\<close> and \<open>W2 = [[1, 1]]\<close>; on the input \<open>[[1]]\<close> with the label 0 the
  softmax loss is \<open>ln 2\<close> and backpropagation gives \<open>[[-1/2, 1/2]]\<close> for \<open>W2\<close> and
  \<open>[[0]]\<close> for \<open>W1\<close>. The source returns the loss \<open>ln 2 + 1/2\<close>, which holds the
  penalty of \<open>W1\<close> and not that of \<open>W2\<close>, the gradient \<open>[[-1, 1]]\<close> for \<open>W2\<close>, which
  is the backpropagated gradient times \<open>1 + reg\<close>, and \<open>[[0]]\<close> for \<open>W1\<close>, with no
  share of \<open>W1\<close> at all.
\<close>

theorem FullyConnectedNet_loss_regularization_misses:
  "FullyConnectedNet_loss manual_seed draw
     \<lparr>fc_use_dropout = False, fc_reg = 1, fc_num_layers = 2, fc_dtype = dt,
      fc_params = [''W1'' \<mapsto> Mat [[1]], ''b1'' \<mapsto> Vec [0],
                   ''W2'' \<mapsto> Mat [[1, 1]], ''b2'' \<mapsto> Vec [0, 0]],
      fc_dropout_param = \<lparr>dp_p = None, dp_mode = None, dp_seed = None\<rparr>\<rparr>
     g [[1]] (Some [0]) =
   Inr (LossGrads (ln 2 + 1 / 2)
          [''b2'' \<mapsto> Vec [- (1 / 2), 1 / 2], ''W2'' \<mapsto> Mat [[- 1, 1]],
           ''W1'' \<mapsto> Mat [[0]], ''b1'' \<mapsto> Vec [0]],
        \<lparr>fc_use_dropout = False, fc_reg = 1, fc_num_layers = 2, fc_dtype = dt,
         fc_params = [''W1'' \<mapsto> Mat [[1]], ''b1'' \<mapsto> Vec [0],
                      ''W2'' \<mapsto> Mat [[1, 1]], ''b2'' \<mapsto> Vec [0, 0]],
         fc_dropout_param = \<lparr>dp_p = None, dp_mode = None, dp_seed = None\<rparr>\<rparr>,
        g)"
  by (simp add: FullyConnectedNet_loss_def get_mat_def get_vec_def bindE_def
      Linear_ReLU_forward_def Linear_forward_def ncols_def mm_def add_bias_def dot_def
      softmax_loss_1_1 fin_of_def finite_mat_def Let_def
      Linear_backward_def Linear_ReLU_backward_def same_shape_def mul_elem_def gt0_def
      sum_dim0_def sum_all_def get_item_def as_linear_def as_linear_relu_def
      dropout_back_step_def mat_add_def scale_def)

text \<open>
  C2. The claim asks that \<open>dW1\<close> and \<open>dW2\<close> of \<open>TwoLayerNet.loss\<close> hold the share
  \<open>2 * reg * W\<close> that belongs to the penalty \<open>reg * (sum(W1 * W1) + sum(W2 * W2))\<close> of
  the loss. With \<open>reg = 1\<close>, \<open>W1 = [[1]]\<close> and \<open>W2 = [[1, 1]]\<close>, in either float
  type, the source returns the loss \<open>3 + ln 2\<close>, penalty included, and the gradients \<open>[[0]]\<close> and
  \<open>[[-1/2, 1/2]]\<close>, which are the backpropagated gradients alone; with the share they
  would be \<open>[[2]]\<close> and \<open>[[3/2, 5/2]]\<close>.
\<close>

theorem TwoLayerNet_loss_gradients_without_penalty:
  "TwoLayerNet_loss
     \<lparr>tl_dtype = dt, tl_reg = 1,
      tl_params = [''W1'' \<mapsto> Mat [[1]], ''b1'' \<mapsto> Vec [0],
                   ''W2'' \<mapsto> Mat [[1, 1]], ''b2'' \<mapsto> Vec [0, 0]]\<rparr>
     [[1]] (Some [0]) =
   Inr (LossGrads (ln 2 + 3)
          [''W1'' \<mapsto> Mat [[0]], ''W2'' \<mapsto> Mat [[- (1 / 2), 1 / 2]],
           ''b1'' \<mapsto> Vec [0], ''b2'' \<mapsto> Vec [- (1 / 2), 1 / 2]])"
  by (simp add: TwoLayerNet_loss_def get_mat_def get_vec_def bindE_def
      Linear_ReLU_forward_def Linear_forward_def ncols_def mm_def add_bias_def dot_def
      softmax_loss_1_1 fin_of_def finite_mat_def Let_def
      Linear_backward_def Linear_ReLU_backward_def same_shape_def mul_elem_def gt0_def
      sum_dim0_def sum_all_def)

section \<open>Construction without hidden layers\<close>

text \<open>
  C3. The claim asks that \<open>FullyConnectedNet\<close> with \<open>hidden_dims = []\<close> is built as
  a network of one layer with the parameters \<open>W1\<close> and \<open>b1\<close>. In the source
  \<open>__init__\<close> reads \<^verbatim>\<open>hidden_dims[0]\<close> whatever the number of layers is, so the
  construction raises \<^verbatim>\<open>IndexError\<close> for every choice of the other arguments.
\<close>

theorem FullyConnectedNet_init_no_hidden_layers:
  "FullyConnectedNet_init randn g [] input_dim num_classes dropout reg weight_scale seed dt =
     Inl IndexError"
  by (simp add: FullyConnectedNet_init_def bindE_def py_index_def)

section \<open>The fused layer against its two parts\<close>

text \<open>
  C4. On every input, \<open>Linear_ReLU.forward\<close> returns the output that
  \<open>ReLU.forward\<close> returns on the output of \<open>Linear.forward\<close> (and raises when
  \<open>Linear.forward\<close> raises), its cache holds the cache of the linear layer followed by
  the cache of the ReLU, and \<open>Linear_ReLU.backward\<close> on that cache returns the
  \<open>(dx, dw, db)\<close> that \<open>ReLU.backward\<close> followed by \<open>Linear.backward\<close> return on the
  caches of the separate calls, for every upstream gradient \<open>dout\<close>.
\<close>

theorem Linear_ReLU_is_composition:
  "Linear_ReLU_forward x w b =
     bindE (Linear_forward x w b) (\<lambda>(a, fc_cache).
       case ReLU_forward a of (out, relu_cache) \<Rightarrow>
         Inr (out, (fst fc_cache, fst (snd fc_cache), snd (snd fc_cache), relu_cache)))
   \<and> bindE (Linear_ReLU_forward x w b) (\<lambda>(out, cache). Linear_ReLU_backward dout cache) =
     bindE (Linear_forward x w b) (\<lambda>(a, fc_cache).
       case ReLU_forward a of (out, relu_cache) \<Rightarrow>
         bindE (ReLU_backward dout relu_cache) (\<lambda>d_relu. Linear_backward d_relu fc_cache))"
  by (simp add: Linear_ReLU_forward_def Linear_forward_def ReLU_forward_def bindE_def
      Linear_ReLU_backward_def ReLU_backward_def Linear_backward_def Let_def)

section \<open>The softmax on large scores\<close>

text \<open>
  C5. The claim asks that for every score matrix \<open>softmax_loss\<close> returns a loss that
  is not negative and the gradient \<open>(softmax(x) - onehot(y)) / N\<close>. On the scores
  \<open>[[1000, 0]]\<close> with the label 0, in either float type, \<^verbatim>\<open>torch.exp\<close>
  gives \<^verbatim>\<open>inf\<close> for the first score, the sum of the row is \<^verbatim>\<open>inf\<close>, and the
  source returns the loss \<^verbatim>\<open>nan\<close> and the gradient \<open>[[nan, 0]]\<close>. The softmax of
  these scores is \<open>[[1, 0]]\<close> up to rounding, so the claim asks for a loss near 0 and a
  gradient near \<open>[[0, 0]]\<close>.
\<close>

theorem softmax_loss_overflow_gives_nan:
  "softmax_loss dt [[1000, 0]] [0] = Inr (NaN, [[NaN, Fin 0]])"
  by (simp add: softmax_loss_def softmax_def softmax_row_1000_0 Let_def label_index_def
      ncols_def bindE_def fsum_def to_float_0)

text \<open>
  C10. The claim asks that \<open>TwoLayerNet.loss\<close> without labels returns rows that are
  not negative and sum to 1, for every input. With \<open>W1 = [[1]]\<close>, \<open>W2 = [[1000, 0]]\<close>
  and biases 0, in either float type, the input \<open>[[1]]\<close> gives the output
  \<open>[[1000, 0]]\<close> of the second linear layer, and the source returns the row
  \<open>[nan, 0]\<close>, for the same reason: line 257 repeats the formula of \<open>softmax_loss\<close>.
\<close>

theorem TwoLayerNet_loss_test_mode_overflow_gives_nan:
  "TwoLayerNet_loss
     \<lparr>tl_dtype = dt, tl_reg = reg,
      tl_params = [''W1'' \<mapsto> Mat [[1]], ''b1'' \<mapsto> Vec [0],
                   ''W2'' \<mapsto> Mat [[1000, 0]], ''b2'' \<mapsto> Vec [0, 0]]\<rparr>
     [[1]] None =
   Inr (Scores [[NaN, Fin 0]])"
  by (simp add: TwoLayerNet_loss_def get_mat_def get_vec_def bindE_def
      Linear_ReLU_forward_def Linear_forward_def ncols_def mm_def add_bias_def dot_def
      softmax_def softmax_row_1000_0 Let_def)

section \<open>Dropout\<close>

lemma rand_like_shape:
  "map length x1 = map length x2 \<Longrightarrow> rand_like draw g x1 = rand_like draw g x2"
proof (induction x1 arbitrary: x2 g)
  case Nil
  then show ?case by simp
next
  case (Cons r rs)
  then obtain r2 rs2 where x2: "x2 = r2 # rs2" by (cases x2) auto
  with Cons.prems have "length r = length r2" "map length rs = map length rs2" by simp_all
  with Cons.IH x2 show ?case by (simp split: prod.splits)
qed

text \<open>
  C6. Two calls of \<open>Dropout.forward\<close> in train mode whose dictionaries hold the same
  seed and the same \<open>p\<close>, on inputs of one shape, return the same mask, whatever the
  state of the generator before each call: the generator is seeded before the sample is
  drawn.
\<close>

theorem Dropout_forward_same_seed_same_mask:
  assumes "dp_mode dp1 = Some ''train''" and "dp_mode dp2 = Some ''train''"
    and "dp_seed dp1 = Some s" and "dp_seed dp2 = Some s"
    and "dp_p dp1 = Some p" and "dp_p dp2 = Some p"
    and "map length x1 = map length x2"
  shows "\<exists>out1 out2 dmask g'.
           Dropout_forward manual_seed draw g1 x1 dp1 = Inr ((Some out1, (dp1, Some dmask)), g')
         \<and> Dropout_forward manual_seed draw g2 x2 dp2 = Inr ((Some out2, (dp2, Some dmask)), g')"
  using assms rand_like_shape [OF assms(7), of draw "manual_seed s"]
  by (simp add: Dropout_forward_def Let_def split: prod.splits)

theorem Dropout_forward_same_seed_same_mask_witness:
  "\<exists>out1 out2 dmask g'.
     Dropout_forward example_seed example_draw 0 [[1, 2], [3, 4]]
       \<lparr>dp_p = Some (1 / 2), dp_mode = Some ''train'', dp_seed = Some 7\<rparr> =
       Inr ((Some out1, (\<lparr>dp_p = Some (1 / 2), dp_mode = Some ''train'', dp_seed = Some 7\<rparr>,
                          Some dmask)), g')
   \<and> Dropout_forward example_seed example_draw 5 [[5, 6], [7, 8]]
       \<lparr>dp_p = Some (1 / 2), dp_mode = Some ''train'', dp_seed = Some 7\<rparr> =
       Inr ((Some out2, (\<lparr>dp_p = Some (1 / 2), dp_mode = Some ''train'', dp_seed = Some 7\<rparr>,
                          Some dmask)), g')"
  by (rule Dropout_forward_same_seed_same_mask [where s = 7 and p = "1 / 2"]) simp_all

lemma rand_n_lt_1:
  "(\<And>g. fst (draw g) < (1::real)) \<Longrightarrow>
   length (fst (rand_n draw g n)) = n \<and> list_all (\<lambda>u. u < 1) (fst (rand_n draw g n))"
proof (induction n arbitrary: g)
  case 0
  then show ?case by simp
next
  case (Suc n)
  obtain u g1 where d: "draw g = (u, g1)" by (cases "draw g")
  obtain us g2 where r: "rand_n draw g1 n = (us, g2)" by (cases "rand_n draw g1 n")
  from d Suc.prems [of g] have "u < 1" by simp
  moreover from Suc.IH [where g = g1, OF Suc.prems] r
  have "length us = n \<and> list_all (\<lambda>u. u < 1) us" by simp
  ultimately show ?case using d r by simp
qed

lemma keep_all_row:
  "length us = length r \<Longrightarrow> list_all (\<lambda>u. u < 1) us \<Longrightarrow>
   map2 (*) (map (\<lambda>u. (if u < 1 - 0 then 1 else 0) / (1 - 0)) (us::real list)) r = (r::real list)"
  by (induction us r rule: list_induct2) simp_all

lemma keep_all:
  "(\<And>g. fst (draw g) < (1::real)) \<Longrightarrow>
   mul_elem (map (map (\<lambda>u. (if u < 1 - 0 then 1 else 0) / (1 - 0))) (fst (rand_like draw g x))) x = x"
proof (induction x arbitrary: g)
  case Nil
  then show ?case by (simp add: mul_elem_def)
next
  case (Cons r rs)
  obtain us g1 where d: "rand_n draw g (length r) = (us, g1)" by (cases "rand_n draw g (length r)")
  obtain m g2 where e: "rand_like draw g1 rs = (m, g2)" by (cases "rand_like draw g1 rs")
  from rand_n_lt_1 [where draw = draw and g = g and n = "length r", OF Cons.prems] d
  have "length us = length r" "list_all (\<lambda>u. u < 1) us"
    by simp_all
  from keep_all_row [OF this] Cons.IH [where g = g1, OF Cons.prems] d e show ?case
    by (simp add: mul_elem_def)
qed

lemma example_draw_lt_1: "fst (example_draw g) < 1"
  by (simp add: example_draw_def)

text \<open>
  C7. In test mode, for any \<open>p\<close>, \<open>Dropout.forward\<close> returns its input and the cache
  \<open>(dropout_param, None)\<close>; the generator is seeded when a seed is present and no
  sample is drawn from it, so the result is the same for every generator; the matching
  \<open>Dropout.backward\<close> returns \<open>dout\<close>. In train mode with \<open>p = 0\<close> the output is the
  input as well, for a generator whose samples lie below 1, as those of
  \<^verbatim>\<open>torch.rand_like\<close> do.
\<close>

theorem Dropout_identity:
  assumes "dp_p dp = Some p"
  shows "(dp_mode dp = Some ''test'' \<longrightarrow>
            Dropout_forward manual_seed draw g x dp =
              Inr ((Some x, (dp, None)), (case dp_seed dp of None \<Rightarrow> g | Some s \<Rightarrow> manual_seed s))
          \<and> Dropout_backward dout (dp, dmask) = Inr (Some dout))
       \<and> (dp_mode dp = Some ''train'' \<and> p = 0 \<and> (\<forall>g. fst (draw g) < 1) \<longrightarrow>
            (\<exists>cache g'. Dropout_forward manual_seed draw g x dp = Inr ((Some x, cache), g')))"
proof (intro conjI impI)
  assume "dp_mode dp = Some ''test''"
  with assms show "Dropout_forward manual_seed draw g x dp =
              Inr ((Some x, (dp, None)), (case dp_seed dp of None \<Rightarrow> g | Some s \<Rightarrow> manual_seed s))"
    by (simp add: Dropout_forward_def Let_def)
next
  assume "dp_mode dp = Some ''test''"
  then show "Dropout_backward dout (dp, dmask) = Inr (Some dout)"
    by (simp add: Dropout_backward_def)
next
  assume a: "dp_mode dp = Some ''train'' \<and> p = 0 \<and> (\<forall>g. fst (draw g) < 1)"
  then have lt: "\<And>g. fst (draw g) < 1" by simp
  let ?g1 = "(case dp_seed dp of None \<Rightarrow> g | Some s \<Rightarrow> manual_seed s)"
  obtain random g2 where rl: "rand_like draw ?g1 x = (random, g2)"
    by (cases "rand_like draw ?g1 x")
  from keep_all [where draw = draw and g = ?g1 and x = x, OF lt] rl
  have "mul_elem (map (map (\<lambda>u. (if u < 1 - 0 then 1 else 0) / (1 - 0))) random) x = x"
    by simp
  with a assms rl
  show "\<exists>cache g'. Dropout_forward manual_seed draw g x dp = Inr ((Some x, cache), g')"
    by (simp add: Dropout_forward_def Let_def)
qed

theorem Dropout_identity_witness:
  "Dropout_forward example_seed example_draw 0 [[1, 2]]
     \<lparr>dp_p = Some (1 / 2), dp_mode = Some ''test'', dp_seed = Some 7\<rparr> =
     Inr ((Some [[1, 2]],
           (\<lparr>dp_p = Some (1 / 2), dp_mode = Some ''test'', dp_seed = Some 7\<rparr>, None)),
          example_seed 7)
   \<and> Dropout_backward [[3, 4]]
       (\<lparr>dp_p = Some (1 / 2), dp_mode = Some ''test'', dp_seed = Some 7\<rparr>, None) =
       Inr (Some [[3, 4]])
   \<and> (\<exists>cache g'. Dropout_forward example_seed example_draw 0 [[1, 2]]
         \<lparr>dp_p = Some 0, dp_mode = Some ''train'', dp_seed = None\<rparr> =
         Inr ((Some [[1, 2]], cache), g'))"
  using Dropout_identity [of "\<lparr>dp_p = Some (1 / 2), dp_mode = Some ''test'', dp_seed = Some 7\<rparr>"
      "1 / 2" example_seed example_draw 0 "[[1, 2]]" "[[3, 4]]" None]
    Dropout_identity [of "\<lparr>dp_p = Some 0, dp_mode = Some ''train'', dp_seed = None\<rparr>"
      0 example_seed example_draw 0 "[[1, 2]]" "[[3, 4]]" None]
    example_draw_lt_1
  by simp

text \<open>
  C9, as the source has it. The claim asks for an error when the mode is neither
  \<open>train\<close> nor \<open>test\<close>. The source has no branch for such a mode: with \<open>p\<close> and
  \<open>mode\<close> present, \<open>Dropout.forward\<close> returns \<open>None\<close> as the output and the cache
  \<open>(dropout_param, None)\<close>, after seeding the generator when a seed is present, and
  raises nothing, for every input tensor and every \<open>p\<close>.
\<close>

theorem Dropout_forward_unknown_mode:
  assumes "dp_p dp = Some p" and "dp_mode dp = Some mode" and "mode \<noteq> ''train''" and "mode \<noteq> ''test''"
  shows "Dropout_forward manual_seed draw g x dp =
           Inr ((None, (dp, None)), (case dp_seed dp of None \<Rightarrow> g | Some s \<Rightarrow> manual_seed s))"
  using assms by (simp add: Dropout_forward_def Let_def)

theorem Dropout_forward_unknown_mode_witness:
  "Dropout_forward example_seed example_draw 0 [[1, 2]]
     \<lparr>dp_p = Some (1 / 2), dp_mode = Some ''eval'', dp_seed = Some 7\<rparr> =
   Inr ((None, (\<lparr>dp_p = Some (1 / 2), dp_mode = Some ''eval'', dp_seed = Some 7\<rparr>, None)),
        example_seed 7)"
  using Dropout_forward_unknown_mode
    [of "\<lparr>dp_p = Some (1 / 2), dp_mode = Some ''eval'', dp_seed = Some 7\<rparr>" "1 / 2" "''eval''"
      example_seed example_draw 0 "[[1, 2]]"]
  by simp

text \<open>
  C9, as the claim states it, fails: with the mode \<open>eval\<close> the call returns a result,
  whose output is \<open>None\<close>, and not an error.
\<close>

theorem Dropout_forward_eval_mode_returns_None:
  "Dropout_forward example_seed example_draw 0 [[1, 2]]
     \<lparr>dp_p = Some (1 / 2), dp_mode = Some ''eval'', dp_seed = None\<rparr> =
   Inr ((None, (\<lparr>dp_p = Some (1 / 2), dp_mode = Some ''eval'', dp_seed = None\<rparr>, None)), 0)"
  by (simp add: Dropout_forward_def Let_def)

section \<open>Adam\<close>

text \<open>
  C8. A call of \<open>adam\<close> stores the step counter \<open>t + 1\<close>, the moments
  \<open>m1 = beta1 * m + (1 - beta1) * dw\<close> and \<open>v1 = beta2 * v + (1 - beta2) * dw^2\<close>, and
  returns \<open>w - learning_rate * m_hat / (sqrt v_hat + epsilon)\<close> with
  \<open>m_hat = m1 / (1 - beta1^(t+1))\<close> and \<open>v_hat = v1 / (1 - beta2^(t+1))\<close>, entry by
  entry. The values \<open>learning_rate\<close>, \<open>beta1\<close>, \<open>beta2\<close>, \<open>epsilon\<close>, \<open>m\<close>, \<open>v\<close> and
  \<open>t\<close> are those of the configuration, or the defaults where a key is absent, and the
  counter is not negative.
\<close>

theorem adam_step:
  assumes "c = (case config of
                  None \<Rightarrow> \<lparr>cfg_learning_rate = None, cfg_beta1 = None, cfg_beta2 = None,
                            cfg_epsilon = None, cfg_m = None, cfg_v = None, cfg_t = None\<rparr>
                | Some c0 \<Rightarrow> c0)"
    and "learning_rate = setdefault (cfg_learning_rate c) (1 / 1000)"
    and "beta1 = setdefault (cfg_beta1 c) (9 / 10)"
    and "beta2 = setdefault (cfg_beta2 c) (999 / 1000)"
    and "epsilon = setdefault (cfg_epsilon c) (1 / 100000000)"
    and "m0 = setdefault (cfg_m c) (replicate (length w) 0)"
    and "v0 = setdefault (cfg_v c) (replicate (length w) 0)"
    and "t0 = setdefault (cfg_t c) 0"
    and "length dw = length w" and "length m0 = length w" and "length v0 = length w"
    and "0 \<le> t0"
  shows "\<exists>next_w m1 v1.
           adam w dw config =
             Inr (next_w, \<lparr>cfg_learning_rate = Some learning_rate, cfg_beta1 = Some beta1,
                            cfg_beta2 = Some beta2, cfg_epsilon = Some epsilon,
                            cfg_m = Some m1, cfg_v = Some v1, cfg_t = Some (t0 + 1)\<rparr>)
         \<and> length next_w = length w \<and> length m1 = length w \<and> length v1 = length w
         \<and> list_all (\<lambda>i.
               m1 ! i = beta1 * m0 ! i + (1 - beta1) * dw ! i
             \<and> v1 ! i = beta2 * v0 ! i + (1 - beta2) * (dw ! i) ^ 2
             \<and> next_w ! i =
                 w ! i - learning_rate *
                   ((m1 ! i / (1 - beta1 ^ nat (t0 + 1)))
                    / (sqrt (v1 ! i / (1 - beta2 ^ nat (t0 + 1))) + epsilon)))
             [0..<length w]"
proof -
  let ?m1 = "map2 (\<lambda>a d. beta1 * a + (1 - beta1) * d) m0 dw"
  let ?v1 = "map2 (\<lambda>a d. beta2 * a + (1 - beta2) * d ^ 2) v0 dw"
  let ?mh = "map (\<lambda>a. a / (1 - beta1 ^ nat (t0 + 1))) ?m1"
  let ?vh = "map (\<lambda>a. a / (1 - beta2 ^ nat (t0 + 1))) ?v1"
  let ?nw = "map2 (\<lambda>x (a, b). x - learning_rate * (a / (sqrt b + epsilon))) w (zip ?mh ?vh)"
  have eq: "adam w dw config =
             Inr (?nw, \<lparr>cfg_learning_rate = Some learning_rate, cfg_beta1 = Some beta1,
                            cfg_beta2 = Some beta2, cfg_epsilon = Some epsilon,
                            cfg_m = Some ?m1, cfg_v = Some ?v1, cfg_t = Some (t0 + 1)\<rparr>)"
    using assms(9-12)
    unfolding adam_def assms(1-8) [symmetric] Let_def py_pow_def bindE_def
    by simp
  show ?thesis
  proof (intro exI conjI)
    show "adam w dw config =
             Inr (?nw, \<lparr>cfg_learning_rate = Some learning_rate, cfg_beta1 = Some beta1,
                            cfg_beta2 = Some beta2, cfg_epsilon = Some epsilon,
                            cfg_m = Some ?m1, cfg_v = Some ?v1, cfg_t = Some (t0 + 1)\<rparr>)"
      by (rule eq)
    show "length ?nw = length w" using assms(9-11) by simp
    show "length ?m1 = length w" using assms(9-11) by simp
    show "length ?v1 = length w" using assms(9-11) by simp
    show "list_all (\<lambda>i.
               ?m1 ! i = beta1 * m0 ! i + (1 - beta1) * dw ! i
             \<and> ?v1 ! i = beta2 * v0 ! i + (1 - beta2) * (dw ! i) ^ 2
             \<and> ?nw ! i =
                 w ! i - learning_rate *
                   ((?m1 ! i / (1 - beta1 ^ nat (t0 + 1)))
                    / (sqrt (?v1 ! i / (1 - beta2 ^ nat (t0 + 1))) + epsilon)))
             [0..<length w]"
      using assms(9-11) by (simp add: list_all_iff)
  qed
qed

theorem adam_step_witness:
  "\<exists>next_w m1 v1.
     adam [1] [1 / 10] None =
       Inr (next_w, \<lparr>cfg_learning_rate = Some (1 / 1000), cfg_beta1 = Some (9 / 10),
                      cfg_beta2 = Some (999 / 1000), cfg_epsilon = Some (1 / 100000000),
                      cfg_m = Some m1, cfg_v = Some v1, cfg_t = Some (0 + 1)\<rparr>)
   \<and> length next_w = length [1::real] \<and> length m1 = length [1::real]
   \<and> length v1 = length [1::real]
   \<and> list_all (\<lambda>i.
         m1 ! i = 9 / 10 * [0] ! i + (1 - 9 / 10) * [1 / 10] ! i
       \<and> v1 ! i = 999 / 1000 * [0] ! i + (1 - 999 / 1000) * ([1 / 10] ! i) ^ 2
       \<and> next_w ! i =
           [1] ! i - 1 / 1000 *
             ((m1 ! i / (1 - (9 / 10) ^ nat (0 + 1)))
              / (sqrt (v1 ! i / (1 - (999 / 1000) ^ nat (0 + 1))) + 1 / 100000000)))
       [0..<length [1::real]]"
  by (rule adam_step [where config = None and w = "[1]" and dw = "[1 / 10]"
        and c = "\<lparr>cfg_learning_rate = None, cfg_beta1 = None, cfg_beta2 = None,
                   cfg_epsilon = None, cfg_m = None, cfg_v = None, cfg_t = None\<rparr>"])
     (simp_all add: setdefault_def)

end
